theory Spec2Isabelle
  imports Main "HOL-Library.AList"
begin

section \<open>Data model of server.js\<close>

text \<open>
  The server keeps two JavaScript \<^verbatim>\<open>Map\<close>s, \<^verbatim>\<open>nodes\<close> and \<^verbatim>\<open>pods\<close>, and one
  variable \<^verbatim>\<open>currentSchedulingAlgorithm\<close>. A \<^verbatim>\<open>Map\<close> iterates in insertion order,
  \<^verbatim>\<open>set\<close> on a present key keeps its position and on an absent key appends, and
  \<^verbatim>\<open>delete\<close> removes the entry: this is an association list with
  \<open>AList.update\<close>, \<open>AList.delete\<close> and \<open>map_of\<close>.

  CPU figures are JavaScript numbers holding integers (the routes pass them through
  \<^verbatim>\<open>parseInt\<close>); they are modelled as \<open>int\<close>. The status strings and the
  algorithm names are enumerations.
\<close>

datatype node_status = Healthy | Unhealthy

datatype pod_status = Running | Pending | PodError

datatype algorithm = FIRST_FIT | BEST_FIT | WORST_FIT

record node =
  n_id :: string
  n_containerId :: string
  cpuCores :: int
  availableCpuCores :: int
  n_pods :: "string list"
  lastHeartbeat :: int
  n_status :: node_status

record pod =
  p_id :: string
  cpuRequirement :: int
  nodeId :: string
  p_containerId :: string
  p_status :: pod_status
  createdAt :: int

record cluster =
  nodes :: "(string \<times> node) list"
  pods :: "(string \<times> pod) list"
  currentSchedulingAlgorithm :: algorithm

text \<open>
  Every operation answers \<^verbatim>\<open>{ success: true, ... }\<close> or
  \<^verbatim>\<open>{ success: false, message }\<close>; the messages are told apart by a constructor.
  \<open>TypeError\<close> stands for the exception JavaScript throws on a property access on
  \<^verbatim>\<open>undefined\<close>.
\<close>

datatype failure =
    NodeAlreadyExists
  | NodeNotFound
  | CannotReduceCpu int
  | NodeHasPods nat
  | NoSuitableNode
  | ContainerFailed
  | PodNotFound
  | NotEnoughResources
  | NoSuitableNodeForRescheduling
  | RescheduleFailed
  | InvalidAlgorithm
  | TypeError

datatype result = Success | Failure failure

text \<open>
  The Docker side (\<^verbatim>\<open>DockerManager\<close>) is outside the program: what
  \<^verbatim>\<open>docker run\<close> and \<^verbatim>\<open>docker rm\<close> answer is a parameter. \<open>dockerRun p n\<close> is
  the container id printed for the pod \<open>p\<close> on node \<open>n\<close>, or \<open>None\<close> when the
  command fails; \<open>dockerRm c\<close> tells whether removing container \<open>c\<close> succeeds. (The
  container name, built from the pod id and the clock, only reaches Docker.)
\<close>

record driver =
  dockerRun :: "string \<Rightarrow> string \<Rightarrow> string option"
  dockerRm :: "string \<Rightarrow> bool"

section \<open>Mutation of the objects held by the maps\<close>

text \<open>
  The code fetches an object with \<^verbatim>\<open>nodes.get(k)\<close> and assigns to its fields. Every
  object is stored under one key, so the assignment is an update of the entry at
  that key; on a key that is absent there is no object and nothing is written.
\<close>

definition mutateNode :: "string \<Rightarrow> (node \<Rightarrow> node) \<Rightarrow> cluster \<Rightarrow> cluster" where
  "mutateNode k f s =
     (case map_of (nodes s) k of
        None \<Rightarrow> s
      | Some n \<Rightarrow> s\<lparr>nodes := AList.update k (f n) (nodes s)\<rparr>)"

definition mutatePod :: "string \<Rightarrow> (pod \<Rightarrow> pod) \<Rightarrow> cluster \<Rightarrow> cluster" where
  "mutatePod k f s =
     (case map_of (pods s) k of
        None \<Rightarrow> s
      | Some p \<Rightarrow> s\<lparr>pods := AList.update k (f p) (pods s)\<rparr>)"

section \<open>DockerManager\<close>

text \<open>\<^verbatim>\<open>launchPodContainer\<close> rejects when the node is unknown, before running Docker.\<close>

definition launchPodContainer :: "driver \<Rightarrow> cluster \<Rightarrow> string \<Rightarrow> string \<Rightarrow> string option" where
  "launchPodContainer drv s podId nid =
     (case map_of (nodes s) nid of
        None \<Rightarrow> None
      | Some _ \<Rightarrow> dockerRun drv podId nid)"

section \<open>NodeManager\<close>

text \<open>
  \<open>containerId\<close> is the optional argument; \<open>gen\<close> is the fallback name the code
  builds from the clock and a random number, \<open>now\<close> is \<^verbatim>\<open>Date.now()\<close>.
\<close>

definition addNode ::
  "cluster \<Rightarrow> string \<Rightarrow> int \<Rightarrow> string option \<Rightarrow> string \<Rightarrow> int \<Rightarrow> result \<times> cluster" where
  "addNode s nid cores containerId gen now =
     (if map_of (nodes s) nid \<noteq> None then (Failure NodeAlreadyExists, s)
      else
        let newNode = \<lparr>n_id = nid,
                       n_containerId = (case containerId of
                                          None \<Rightarrow> gen
                                        | Some c \<Rightarrow> if c = [] then gen else c),
                       cpuCores = cores,
                       availableCpuCores = cores,
                       n_pods = [],
                       lastHeartbeat = now,
                       n_status = Healthy\<rparr>
        in (Success, s\<lparr>nodes := AList.update nid newNode (nodes s)\<rparr>))"

text \<open>The \<^verbatim>\<open>reduce\<close> of \<^verbatim>\<open>updateNode\<close>: a listed id with no pod record counts 0.\<close>

definition totalPodCpu :: "cluster \<Rightarrow> node \<Rightarrow> int" where
  "totalPodCpu s n =
     foldl (\<lambda>total podId. total + (case map_of (pods s) podId of
                                      Some p \<Rightarrow> cpuRequirement p
                                    | None \<Rightarrow> 0))
           0 (n_pods n)"

text \<open>\<open>upd\<close> is \<^verbatim>\<open>updates.cpuCores\<close>, \<open>None\<close> when it is \<^verbatim>\<open>undefined\<close>.\<close>

definition updateNode :: "cluster \<Rightarrow> string \<Rightarrow> int option \<Rightarrow> result \<times> cluster" where
  "updateNode s nid upd =
     (case map_of (nodes s) nid of
        None \<Rightarrow> (Failure NodeNotFound, s)
      | Some n \<Rightarrow>
          (case upd of
             None \<Rightarrow> (Success, s)
           | Some c \<Rightarrow>
               if c < totalPodCpu s n then (Failure (CannotReduceCpu (totalPodCpu s n)), s)
               else (Success,
                     mutateNode nid
                       (\<lambda>m. m\<lparr>availableCpuCores := c - (cpuCores m - availableCpuCores m),
                              cpuCores := c\<rparr>) s)))"

definition removeNode :: "cluster \<Rightarrow> string \<Rightarrow> result \<times> cluster" where
  "removeNode s nid =
     (case map_of (nodes s) nid of
        None \<Rightarrow> (Failure NodeNotFound, s)
      | Some n \<Rightarrow>
          if length (n_pods n) > 0 then (Failure (NodeHasPods (length (n_pods n))), s)
          else (Success, s\<lparr>nodes := AList.delete nid (nodes s)\<rparr>))"

section \<open>PodScheduler\<close>

text \<open>
  \<^verbatim>\<open>_findSuitableNode\<close>. \<^verbatim>\<open>Array.prototype.sort\<close> is stable, and so is \<open>sort_key\<close>;
  the descending comparator \<^verbatim>\<open>b - a\<close> is the ascending order of the negated key.
\<close>

definition healthyNodes :: "cluster \<Rightarrow> int \<Rightarrow> node list" where
  "healthyNodes s cpu =
     filter (\<lambda>n. n_status n = Healthy \<and> availableCpuCores n \<ge> cpu) (map snd (nodes s))"

definition findSuitableNode :: "cluster \<Rightarrow> int \<Rightarrow> string option" where
  "findSuitableNode s cpu =
     (let hs = healthyNodes s cpu in
      if length hs = 0 then None
      else
        (case currentSchedulingAlgorithm s of
           BEST_FIT \<Rightarrow> Some (n_id (hd (sort_key availableCpuCores hs)))
         | WORST_FIT \<Rightarrow> Some (n_id (hd (sort_key (\<lambda>n. - availableCpuCores n) hs)))
         | FIRST_FIT \<Rightarrow> Some (n_id (hd hs))))"

text \<open>
  \<^verbatim>\<open>if (!nodeId)\<close> holds for \<^verbatim>\<open>null\<close> and for the empty string.
\<close>

definition falsy :: "string option \<Rightarrow> bool" where
  "falsy r = (case r of None \<Rightarrow> True | Some i \<Rightarrow> i = [])"

text \<open>
  \<open>podId\<close> is the identifier the code builds from the clock and a random number,
  \<open>now\<close> the clock at the creation of the record.
\<close>

definition schedulePod ::
  "driver \<Rightarrow> cluster \<Rightarrow> int \<Rightarrow> string \<Rightarrow> int \<Rightarrow> result \<times> cluster" where
  "schedulePod drv s cpu podId now =
     (let r = findSuitableNode s cpu in
      if falsy r then (Failure NoSuitableNode, s)
      else
        let nid = the r in
        (case map_of (nodes s) nid of
           None \<Rightarrow> (Failure TypeError, s)
         | Some _ \<Rightarrow>
             let s1 = mutateNode nid
                        (\<lambda>n. n\<lparr>availableCpuCores := availableCpuCores n - cpu,
                               n_pods := n_pods n @ [podId]\<rparr>) s
             in
             (case launchPodContainer drv s1 podId nid of
                Some containerId \<Rightarrow>
                  let newPod = \<lparr>p_id = podId, cpuRequirement = cpu, nodeId = nid,
                                p_containerId = containerId, p_status = Running,
                                createdAt = now\<rparr>
                  in (Success, s1\<lparr>pods := AList.update podId newPod (pods s1)\<rparr>)
              | None \<Rightarrow>
                  (Failure ContainerFailed,
                   mutateNode nid
                     (\<lambda>n. n\<lparr>availableCpuCores := availableCpuCores n + cpu,
                            n_pods := filter (\<lambda>i. i \<noteq> podId) (n_pods n)\<rparr>) s1))))"

text \<open>\<open>upd\<close> is \<^verbatim>\<open>updates.cpuRequirement\<close>, \<open>None\<close> when it is \<^verbatim>\<open>undefined\<close>.\<close>

definition updatePod :: "cluster \<Rightarrow> string \<Rightarrow> int option \<Rightarrow> result \<times> cluster" where
  "updatePod s podId upd =
     (case map_of (pods s) podId of
        None \<Rightarrow> (Failure PodNotFound, s)
      | Some p \<Rightarrow>
          (case upd of
             None \<Rightarrow> (Success, s)
           | Some c \<Rightarrow>
               (case map_of (nodes s) (nodeId p) of
                  None \<Rightarrow> (Failure NodeNotFound, s)
                | Some n \<Rightarrow>
                    let additionalCpu = c - cpuRequirement p in
                    if availableCpuCores n < additionalCpu then (Failure NotEnoughResources, s)
                    else
                      (Success,
                       mutatePod podId (\<lambda>q. q\<lparr>cpuRequirement := c\<rparr>)
                         (mutateNode (nodeId p)
                            (\<lambda>m. m\<lparr>availableCpuCores := availableCpuCores m - additionalCpu\<rparr>)
                            s)))))"

text \<open>
  The \<^verbatim>\<open>try\<close>/\<^verbatim>\<open>catch\<close> around \<^verbatim>\<open>removeContainer\<close> only logs, on both branches.
\<close>

definition removePod :: "driver \<Rightarrow> cluster \<Rightarrow> string \<Rightarrow> result \<times> cluster" where
  "removePod drv s podId =
     (case map_of (pods s) podId of
        None \<Rightarrow> (Failure PodNotFound, s)
      | Some p \<Rightarrow>
          let s1 = mutateNode (nodeId p)
                     (\<lambda>n. n\<lparr>availableCpuCores := availableCpuCores n + cpuRequirement p,
                            n_pods := filter (\<lambda>i. i \<noteq> podId) (n_pods n)\<rparr>) s;
              s2 = (if dockerRm drv (p_containerId p) then s1 else s1)
          in (Success, s2\<lparr>pods := AList.delete podId (pods s2)\<rparr>))"

definition reschedulePod :: "driver \<Rightarrow> cluster \<Rightarrow> string \<Rightarrow> result \<times> cluster" where
  "reschedulePod drv s podId =
     (case map_of (pods s) podId of
        None \<Rightarrow> (Failure PodNotFound, s)
      | Some p \<Rightarrow>
          let cpu = cpuRequirement p;
              currentNode = map_of (nodes s) (nodeId p);
              s1 = mutateNode (nodeId p)
                     (\<lambda>n. n\<lparr>n_pods := filter (\<lambda>i. i \<noteq> podId) (n_pods n),
                            availableCpuCores := availableCpuCores n + cpu\<rparr>) s;
              r = findSuitableNode s1 cpu
          in
          if falsy r then
            (Failure NoSuitableNodeForRescheduling,
             mutatePod podId (\<lambda>q. q\<lparr>p_status := Pending\<rparr>) s1)
          else
            let newNodeId = the r in
            (case map_of (nodes s1) newNodeId of
               None \<Rightarrow> (Failure TypeError, s1)
             | Some _ \<Rightarrow>
                 let s2 = mutatePod podId (\<lambda>q. q\<lparr>nodeId := newNodeId\<rparr>)
                            (mutateNode newNodeId
                               (\<lambda>n. n\<lparr>n_pods := n_pods n @ [podId],
                                      availableCpuCores := availableCpuCores n - cpu\<rparr>) s1);
                     s2' = (if dockerRm drv (p_containerId p) then s2 else s2)
                 in
                 (case launchPodContainer drv s2' podId newNodeId of
                    Some containerId \<Rightarrow>
                      (Success,
                       mutatePod podId
                         (\<lambda>q. q\<lparr>p_containerId := containerId, p_status := Running\<rparr>) s2')
                  | None \<Rightarrow>
                      let s3 = mutateNode newNodeId
                                 (\<lambda>n. n\<lparr>n_pods := filter (\<lambda>i. i \<noteq> podId) (n_pods n),
                                        availableCpuCores := availableCpuCores n + cpu\<rparr>) s2'
                      in
                      (case currentNode of
                         Some c \<Rightarrow>
                           (Failure RescheduleFailed,
                            mutatePod podId (\<lambda>q. q\<lparr>nodeId := n_id c\<rparr>)
                              (mutateNode (nodeId p)
                                 (\<lambda>n. n\<lparr>n_pods := n_pods n @ [podId],
                                        availableCpuCores := availableCpuCores n - cpu\<rparr>) s3))
                       | None \<Rightarrow>
                           (Failure RescheduleFailed,
                            mutatePod podId (\<lambda>q. q\<lparr>p_status := PodError\<rparr>) s3)))))"

fun algorithmOf :: "string \<Rightarrow> algorithm option" where
  "algorithmOf a =
     (if a = ''first-fit'' then Some FIRST_FIT
      else if a = ''best-fit'' then Some BEST_FIT
      else if a = ''worst-fit'' then Some WORST_FIT
      else None)"

definition setSchedulingAlgorithm :: "cluster \<Rightarrow> string \<Rightarrow> result \<times> cluster" where
  "setSchedulingAlgorithm s a =
     (case algorithmOf a of
        Some alg \<Rightarrow> (Success, s\<lparr>currentSchedulingAlgorithm := alg\<rparr>)
      | None \<Rightarrow> (Failure InvalidAlgorithm, s))"

section \<open>HealthMonitor\<close>

definition HEARTBEAT_TIMEOUT :: int where
  "HEARTBEAT_TIMEOUT = 10000"

text \<open>
  \<^verbatim>\<open>handleNodeFailure\<close> copies the node's pod list and reschedules each pod in turn,
  awaiting each call. An exception of \<^verbatim>\<open>reschedulePod\<close> ends the loop.
\<close>

fun rescheduleAll :: "driver \<Rightarrow> string list \<Rightarrow> cluster \<Rightarrow> cluster" where
  "rescheduleAll drv [] s = s"
| "rescheduleAll drv (podId # rest) s =
     (case reschedulePod drv s podId of
        (Failure TypeError, s') \<Rightarrow> s'
      | (_, s') \<Rightarrow> rescheduleAll drv rest s')"

definition handleNodeFailure :: "driver \<Rightarrow> cluster \<Rightarrow> string \<Rightarrow> cluster" where
  "handleNodeFailure drv s nid =
     (case map_of (nodes s) nid of
        None \<Rightarrow> s
      | Some n \<Rightarrow> rescheduleAll drv (n_pods n) s)"

text \<open>
  \<^verbatim>\<open>checkNodeHealth\<close> walks the entries of \<^verbatim>\<open>nodes\<close> in insertion order. The code
  starts \<^verbatim>\<open>handleNodeFailure\<close> without awaiting it; the model runs it to its end
  before the walk goes on. That is what the code does when at most one node is stale
  and no other request arrives meanwhile (the rest of the walk only reads
  \<^verbatim>\<open>lastHeartbeat\<close>); with several stale nodes the code interleaves their handlers
  at the Docker calls, which this model does not follow. \<open>staleNodes\<close> are the
  entries the walk finds stale.
\<close>

definition staleNodes :: "cluster \<Rightarrow> int \<Rightarrow> (string \<times> node) list" where
  "staleNodes s now =
     filter (\<lambda>(k, n). now - lastHeartbeat n > HEARTBEAT_TIMEOUT) (nodes s)"

fun checkNodes :: "driver \<Rightarrow> int \<Rightarrow> string list \<Rightarrow> cluster \<Rightarrow> cluster" where
  "checkNodes drv now [] s = s"
| "checkNodes drv now (k # ks) s =
     (case map_of (nodes s) k of
        None \<Rightarrow> checkNodes drv now ks s
      | Some n \<Rightarrow>
          if now - lastHeartbeat n > HEARTBEAT_TIMEOUT then
            checkNodes drv now ks
              (handleNodeFailure drv (mutateNode k (\<lambda>m. m\<lparr>n_status := Unhealthy\<rparr>) s) k)
          else checkNodes drv now ks s)"

definition checkNodeHealth :: "driver \<Rightarrow> cluster \<Rightarrow> int \<Rightarrow> cluster" where
  "checkNodeHealth drv s now = checkNodes drv now (map fst (nodes s)) s"

definition recordHeartbeat :: "cluster \<Rightarrow> string \<Rightarrow> int \<Rightarrow> bool \<times> cluster" where
  "recordHeartbeat s nid now =
     (case map_of (nodes s) nid of
        Some _ \<Rightarrow> (True, mutateNode nid (\<lambda>n. n\<lparr>lastHeartbeat := now, n_status := Healthy\<rparr>) s)
      | None \<Rightarrow> (False, s))"

section \<open>Vocabulary of the properties\<close>

subsection \<open>Capacity accounting\<close>

text \<open>
  The CPU a node hosts is the sum of \<open>cpuRequirement\<close> over the pod ids it lists
  (an id with no pod record adds nothing). A node's accounting is right when its
  available cores and the hosted CPU add up to its cores, with the available cores
  between 0 and the cores.
\<close>

definition podCpu :: "cluster \<Rightarrow> string \<Rightarrow> int" where
  "podCpu s podId = (case map_of (pods s) podId of Some p \<Rightarrow> cpuRequirement p | None \<Rightarrow> 0)"

definition hostedCpu :: "cluster \<Rightarrow> node \<Rightarrow> int" where
  "hostedCpu s n = sum_list (map (podCpu s) (n_pods n))"

definition capacityOk :: "cluster \<Rightarrow> node \<Rightarrow> bool" where
  "capacityOk s n =
     (availableCpuCores n + hostedCpu s n = cpuCores n \<and>
      0 \<le> availableCpuCores n \<and> availableCpuCores n \<le> cpuCores n)"

subsection \<open>The two paired assignments\<close>

text \<open>
  Taking a pod off a node (drop its id, give its CPU back) and putting it on a node
  (append its id, take its CPU) recur in the scheduler; the proofs name them.
\<close>

definition detach :: "string \<Rightarrow> int \<Rightarrow> node \<Rightarrow> node" where
  "detach podId cpu n = n\<lparr>n_pods := filter (\<lambda>i. i \<noteq> podId) (n_pods n),
                          availableCpuCores := availableCpuCores n + cpu\<rparr>"

definition attach :: "string \<Rightarrow> int \<Rightarrow> node \<Rightarrow> node" where
  "attach podId cpu n = n\<lparr>n_pods := n_pods n @ [podId],
                          availableCpuCores := availableCpuCores n - cpu\<rparr>"

text \<open>The pod ids listed under a node key; none when the key is absent.\<close>

definition podsAt :: "cluster \<Rightarrow> string \<Rightarrow> string list" where
  "podsAt s k = (case map_of (nodes s) k of Some n \<Rightarrow> n_pods n | None \<Rightarrow> [])"

subsection \<open>The relation between pods and nodes\<close>


text \<open>
  What the code keeps: every node is stored under its own id; every listed id has a
  pod record that names the listing node; every pod that is \<open>Running\<close> names a node
  that exists and lists it.
\<close>

definition nodeKeysOk :: "cluster \<Rightarrow> bool" where
  "nodeKeysOk s = (\<forall>(k, n) \<in> set (nodes s). n_id n = k)"




subsection \<open>Reachable states\<close>

text \<open>
  The states between two operations: the server starts with empty maps and the
  first-fit algorithm, and every operation runs to its end before the next one
  starts. Docker's answers, the clock and the arguments are arbitrary. The pod id
  \<^verbatim>\<open>schedulePod\<close> generates is taken to be new, as the clock and the random number
  are meant to make it. A health check is taken when at most one node is stale,
  where the model of \<^verbatim>\<open>checkNodeHealth\<close> is the code.
\<close>

definition emptyCluster :: cluster where
  "emptyCluster = \<lparr>nodes = [], pods = [], currentSchedulingAlgorithm = FIRST_FIT\<rparr>"

inductive reachable :: "cluster \<Rightarrow> bool" where
  start: "reachable emptyCluster"
| addNode: "reachable s \<Longrightarrow> reachable (snd (addNode s nid cores cid gen now))"
| updateNode: "reachable s \<Longrightarrow> reachable (snd (updateNode s nid upd))"
| removeNode: "reachable s \<Longrightarrow> reachable (snd (removeNode s nid))"
| schedulePod:
    "reachable s \<Longrightarrow> map_of (pods s) podId = None \<Longrightarrow>
     reachable (snd (schedulePod drv s cpu podId now))"
| updatePod: "reachable s \<Longrightarrow> reachable (snd (updatePod s podId upd))"
| removePod: "reachable s \<Longrightarrow> reachable (snd (removePod drv s podId))"
| reschedulePod: "reachable s \<Longrightarrow> reachable (snd (reschedulePod drv s podId))"
| checkNodeHealth:
    "reachable s \<Longrightarrow> length (staleNodes s now) \<le> 1 \<Longrightarrow>
     reachable (checkNodeHealth drv s now)"
| recordHeartbeat: "reachable s \<Longrightarrow> reachable (snd (recordHeartbeat s nid now))"
| setSchedulingAlgorithm: "reachable s \<Longrightarrow> reachable (snd (setSchedulingAlgorithm s a))"

subsection \<open>Small clusters to run the operations on\<close>

text \<open>A Docker on which every command fails, and one on which every command succeeds.\<close>

definition failingDocker :: driver where
  "failingDocker = \<lparr>dockerRun = (\<lambda>p n. None), dockerRm = (\<lambda>c. False)\<rparr>"

definition workingDocker :: driver where
  "workingDocker = \<lparr>dockerRun = (\<lambda>p n. Some (''c-'' @ p)), dockerRm = (\<lambda>c. True)\<rparr>"

text \<open>One healthy node of 4 cores hosting one running pod that requires 2.\<close>

definition exNode :: node where
  "exNode = \<lparr>n_id = ''n1'', n_containerId = ''c-n1'', cpuCores = 4, availableCpuCores = 2,
              n_pods = [''p1''], lastHeartbeat = 0, n_status = Healthy\<rparr>"

definition exPod :: pod where
  "exPod = \<lparr>p_id = ''p1'', cpuRequirement = 2, nodeId = ''n1'', p_containerId = ''c-p1'',
             p_status = Running, createdAt = 0\<rparr>"

definition exCluster :: cluster where
  "exCluster = \<lparr>nodes = [(''n1'', exNode)], pods = [(''p1'', exPod)],
                 currentSchedulingAlgorithm = FIRST_FIT\<rparr>"

text \<open>
  The same pod on a node gone unhealthy, beside an empty healthy node of 4 cores;
  and the same pod with only that second node, the node it names being gone.
\<close>

definition exSpare :: node where
  "exSpare = \<lparr>n_id = ''n2'', n_containerId = ''c-n2'', cpuCores = 4, availableCpuCores = 4,
               n_pods = [], lastHeartbeat = 0, n_status = Healthy\<rparr>"

definition exTwo :: cluster where
  "exTwo = \<lparr>nodes = [(''n1'', exNode\<lparr>n_status := Unhealthy\<rparr>), (''n2'', exSpare)],
             pods = [(''p1'', exPod)], currentSchedulingAlgorithm = FIRST_FIT\<rparr>"

definition exOrphan :: cluster where
  "exOrphan = \<lparr>nodes = [(''n2'', exSpare)], pods = [(''p1'', exPod)],
                currentSchedulingAlgorithm = FIRST_FIT\<rparr>"

text \<open>
  Scenario C of the specification, built with the operations: a node of 4 cores is
  added at time 0 and a pod requiring 4 is scheduled on it at time 1.
  \<open>scenarioC_stale\<close> is the state in which the health monitor, having marked the
  node, reschedules the pod; \<open>scenarioC_failed\<close> is the state the health check
  leaves; \<open>scenarioC_removed\<close> is that state after the pod is removed.
\<close>

definition scenarioC :: cluster where
  "scenarioC =
     snd (schedulePod workingDocker
            (snd (addNode emptyCluster ''n1'' 4 None ''c-n1'' 0)) 4 ''p1'' 1)"

definition scenarioC_stale :: cluster where
  "scenarioC_stale = mutateNode ''n1'' (\<lambda>m. m\<lparr>n_status := Unhealthy\<rparr>) scenarioC"

definition scenarioC_failed :: cluster where
  "scenarioC_failed =
     \<lparr>nodes = [(''n1'', \<lparr>n_id = ''n1'', n_containerId = ''c-n1'', cpuCores = 4,
                          availableCpuCores = 4, n_pods = [], lastHeartbeat = 0,
                          n_status = Unhealthy\<rparr>)],
      pods = [(''p1'', \<lparr>p_id = ''p1'', cpuRequirement = 4, nodeId = ''n1'',
                         p_containerId = ''c-p1'', p_status = Pending, createdAt = 1\<rparr>)],
      currentSchedulingAlgorithm = FIRST_FIT\<rparr>"

definition scenarioC_removed :: cluster where
  "scenarioC_removed = snd (removePod workingDocker scenarioC_failed ''p1'')"

definition overfullNode :: node where
  "overfullNode = \<lparr>n_id = ''n1'', n_containerId = ''c-n1'', cpuCores = 4,
                    availableCpuCores = 8, n_pods = [], lastHeartbeat = 0,
                    n_status = Unhealthy\<rparr>"

text \<open>
  Six nodes in insertion order \<open>a\<close> to \<open>f\<close>; for a demand of 2 the candidates are
  \<open>a\<close>, \<open>b\<close>, \<open>d\<close> and \<open>f\<close> (\<open>c\<close> is unhealthy, \<open>e\<close> too small), with ties
  on the least and on the most available cores.
\<close>

definition fleetNode :: "string \<Rightarrow> int \<Rightarrow> node_status \<Rightarrow> node" where
  "fleetNode k a st = \<lparr>n_id = k, n_containerId = ''c-'' @ k, cpuCores = 8,
                       availableCpuCores = a, n_pods = [], lastHeartbeat = 0, n_status = st\<rparr>"

definition exFleet :: "algorithm \<Rightarrow> cluster" where
  "exFleet alg =
     \<lparr>nodes = [(''a'', fleetNode ''a'' 5 Healthy), (''b'', fleetNode ''b'' 3 Healthy),
               (''c'', fleetNode ''c'' 8 Unhealthy), (''d'', fleetNode ''d'' 3 Healthy),
               (''e'', fleetNode ''e'' 1 Healthy), (''f'', fleetNode ''f'' 5 Healthy)],
      pods = [], currentSchedulingAlgorithm = alg\<rparr>"

definition exCands :: "node list" where
  "exCands = [fleetNode ''a'' 5 Healthy, fleetNode ''b'' 3 Healthy,
              fleetNode ''d'' 3 Healthy, fleetNode ''f'' 5 Healthy]"

section \<open>Basic facts about the mutations\<close>

lemma nodes_mutatePod [simp]: "nodes (mutatePod k f s) = nodes s"
  by (simp add: mutatePod_def split: option.splits)

lemma pods_mutateNode [simp]: "pods (mutateNode k f s) = pods s"
  by (simp add: mutateNode_def split: option.splits)

lemma alg_mutateNode [simp]:
  "currentSchedulingAlgorithm (mutateNode k f s) = currentSchedulingAlgorithm s"
  by (simp add: mutateNode_def split: option.splits)

lemma alg_mutatePod [simp]:
  "currentSchedulingAlgorithm (mutatePod k f s) = currentSchedulingAlgorithm s"
  by (simp add: mutatePod_def split: option.splits)

lemma map_of_mutateNode:
  "map_of (nodes (mutateNode k f s)) k' =
     (if k' = k then map_option f (map_of (nodes s) k) else map_of (nodes s) k')"
  by (simp add: mutateNode_def AList.update_conv' split: option.splits)

lemma map_of_mutatePod:
  "map_of (pods (mutatePod k f s)) k' =
     (if k' = k then map_option f (map_of (pods s) k) else map_of (pods s) k')"
  by (simp add: mutatePod_def AList.update_conv' split: option.splits)



lemma findSuitableNode_mutatePod [simp]:
  "findSuitableNode (mutatePod k f s) cpu = findSuitableNode s cpu"
  by (simp add: findSuitableNode_def healthyNodes_def Let_def)

lemma filter_neq_id: "x \<notin> set xs \<Longrightarrow> filter (\<lambda>i. i \<noteq> x) xs = xs"
  by (induction xs) auto

lemma foldl_add_sum_list:
  "foldl (\<lambda>total x. total + g x) a xs = (a::int) + sum_list (map g xs)"
  by (induction xs arbitrary: a) simp_all

lemma totalPodCpu_hostedCpu: "totalPodCpu s n = hostedCpu s n"
  unfolding totalPodCpu_def hostedCpu_def podCpu_def
  by (simp add: foldl_add_sum_list)

lemma podCpu_mutateNode [simp]: "podCpu (mutateNode k f s) = podCpu s"
  by (rule ext) (simp add: podCpu_def)


lemma detach_simps [simp]:
  "n_pods (detach i c n) = filter (\<lambda>j. j \<noteq> i) (n_pods n)"
  "n_id (detach i c n) = n_id n"
  "n_status (detach i c n) = n_status n"
  "availableCpuCores (detach i c n) = availableCpuCores n + c"
  by (simp_all add: detach_def)

lemma attach_simps [simp]:
  "n_pods (attach i c n) = n_pods n @ [i]"
  "n_id (attach i c n) = n_id n"
  "n_status (attach i c n) = n_status n"
  "availableCpuCores (attach i c n) = availableCpuCores n - c"
  by (simp_all add: attach_def)



lemma launch_fails:
  "dockerRun drv podId nid = None \<Longrightarrow> launchPodContainer drv s podId nid = None"
  by (simp add: launchPodContainer_def split: option.splits)

text \<open>\<^verbatim>\<open>reschedulePod\<close> on a pod that exists, with the paired assignments named.\<close>

lemma reschedulePod_unfold:
  assumes "map_of (pods s) podId = Some p"
  shows "reschedulePod drv s podId =
     (let cpu = cpuRequirement p;
          s1 = mutateNode (nodeId p) (detach podId cpu) s;
          r = findSuitableNode s1 cpu
      in if falsy r then
           (Failure NoSuitableNodeForRescheduling,
            mutatePod podId (\<lambda>q. q\<lparr>p_status := Pending\<rparr>) s1)
         else
           (case map_of (nodes s1) (the r) of
              None \<Rightarrow> (Failure TypeError, s1)
            | Some _ \<Rightarrow>
                let s2 = mutatePod podId (\<lambda>q. q\<lparr>nodeId := the r\<rparr>)
                           (mutateNode (the r) (attach podId cpu) s1)
                in (case launchPodContainer drv s2 podId (the r) of
                      Some containerId \<Rightarrow>
                        (Success,
                         mutatePod podId
                           (\<lambda>q. q\<lparr>p_containerId := containerId, p_status := Running\<rparr>) s2)
                    | None \<Rightarrow>
                        let s3 = mutateNode (the r) (detach podId cpu) s2
                        in (case map_of (nodes s) (nodeId p) of
                              Some c \<Rightarrow>
                                (Failure RescheduleFailed,
                                 mutatePod podId (\<lambda>q. q\<lparr>nodeId := n_id c\<rparr>)
                                   (mutateNode (nodeId p) (attach podId cpu) s3))
                            | None \<Rightarrow>
                                (Failure RescheduleFailed,
                                 mutatePod podId (\<lambda>q. q\<lparr>p_status := PodError\<rparr>) s3)))))"
  unfolding reschedulePod_def detach_def [abs_def] attach_def [abs_def] Let_def
  using assms by simp

section \<open>Placement\<close>

lemma hd_insort_key:
  "hd (insort_key f x ys) = (if ys = [] \<or> f x \<le> f (hd ys) then x else hd ys)"
  by (cases ys) simp_all

lemma sort_key_eq_Nil [simp]: "sort_key f xs = [] \<longleftrightarrow> xs = []"
  by (metis length_sort list.size(3) length_0_conv)

text \<open>
  The head of a stably sorted list is the first element, in the original order, whose
  key is least.
\<close>

lemma hd_sort_key_first_min:
  fixes f :: "'a \<Rightarrow> 'b::linorder"
  assumes "xs \<noteq> []"
  shows "\<exists>i<length xs. hd (sort_key f xs) = xs ! i \<and>
           (\<forall>j<length xs. f (xs ! i) \<le> f (xs ! j)) \<and>
           (\<forall>j<i. f (xs ! i) < f (xs ! j))"
  using assms
proof (induction xs)
  case Nil
  then show ?case by simp
next
  case (Cons x xs)
  show ?case
  proof (cases "xs = []")
    case True
    then show ?thesis by simp
  next
    case False
    from Cons.IH [OF False] obtain i where i: "i < length xs"
      and h: "hd (sort_key f xs) = xs ! i"
      and least: "\<forall>j<length xs. f (xs ! i) \<le> f (xs ! j)"
      and first: "\<forall>j<i. f (xs ! i) < f (xs ! j)"
      by blast
    have hd_eq: "hd (sort_key f (x # xs)) = (if f x \<le> f (xs ! i) then x else xs ! i)"
      using False h by (simp add: hd_insort_key)
    show ?thesis
    proof (cases "f x \<le> f (xs ! i)")
      case True
      have "\<forall>j<length (x # xs). f ((x # xs) ! 0) \<le> f ((x # xs) ! j)"
      proof (intro allI impI)
        fix j assume "j < length (x # xs)"
        then show "f ((x # xs) ! 0) \<le> f ((x # xs) ! j)"
          using True least by (cases j) (auto intro: order_trans)
      qed
      with True hd_eq show ?thesis
        by (intro exI [of _ 0]) simp
    next
      case False
      have a: "\<forall>j<length (x # xs). f ((x # xs) ! Suc i) \<le> f ((x # xs) ! j)"
      proof (intro allI impI)
        fix j assume "j < length (x # xs)"
        then show "f ((x # xs) ! Suc i) \<le> f ((x # xs) ! j)"
          using False least by (cases j) auto
      qed
      have b: "\<forall>j<Suc i. f ((x # xs) ! Suc i) < f ((x # xs) ! j)"
      proof (intro allI impI)
        fix j assume "j < Suc i"
        then show "f ((x # xs) ! Suc i) < f ((x # xs) ! j)"
          using False first by (cases j) auto
      qed
      from False hd_eq i a b show ?thesis
        by (intro exI [of _ "Suc i"]) simp
    qed
  qed
qed

text \<open>
  Claim C6 (placement selection). Let \<open>cands\<close> be the nodes, in insertion order,
  that are healthy and have at least \<open>d\<close> available cores. \<^verbatim>\<open>_findSuitableNode\<close>
  returns nothing when \<open>cands\<close> is empty. Otherwise first-fit returns the first
  candidate; best-fit returns the candidate at the least index \<open>i\<close> whose available
  cores are minimal (no candidate has fewer, every earlier one has strictly more);
  worst-fit returns the candidate at the least index whose available cores are
  maximal. The result is a function of the node list, the demand and the algorithm.
\<close>

theorem findSuitableNode_selection:
  assumes "cands = filter (\<lambda>n. n_status n = Healthy \<and> d \<le> availableCpuCores n)
                     (map snd (nodes s))"
  shows "(cands = [] \<longrightarrow> findSuitableNode s d = None) \<and>
         (cands \<noteq> [] \<and> currentSchedulingAlgorithm s = FIRST_FIT \<longrightarrow>
            findSuitableNode s d = Some (n_id (cands ! 0))) \<and>
         (cands \<noteq> [] \<and> currentSchedulingAlgorithm s = BEST_FIT \<longrightarrow>
            (\<exists>i<length cands. findSuitableNode s d = Some (n_id (cands ! i)) \<and>
               (\<forall>j<length cands. availableCpuCores (cands ! i) \<le> availableCpuCores (cands ! j)) \<and>
               (\<forall>j<i. availableCpuCores (cands ! i) < availableCpuCores (cands ! j)))) \<and>
         (cands \<noteq> [] \<and> currentSchedulingAlgorithm s = WORST_FIT \<longrightarrow>
            (\<exists>i<length cands. findSuitableNode s d = Some (n_id (cands ! i)) \<and>
               (\<forall>j<length cands. availableCpuCores (cands ! j) \<le> availableCpuCores (cands ! i)) \<and>
               (\<forall>j<i. availableCpuCores (cands ! j) < availableCpuCores (cands ! i))))"
proof -
  have hs: "healthyNodes s d = cands"
    by (simp add: healthyNodes_def assms)
  have none: "cands = [] \<longrightarrow> findSuitableNode s d = None"
    by (simp add: findSuitableNode_def hs)
  have first: "cands \<noteq> [] \<and> currentSchedulingAlgorithm s = FIRST_FIT \<longrightarrow>
                 findSuitableNode s d = Some (n_id (cands ! 0))"
    by (simp add: findSuitableNode_def hs hd_conv_nth)
  have best: "cands \<noteq> [] \<and> currentSchedulingAlgorithm s = BEST_FIT \<longrightarrow>
            (\<exists>i<length cands. findSuitableNode s d = Some (n_id (cands ! i)) \<and>
               (\<forall>j<length cands. availableCpuCores (cands ! i) \<le> availableCpuCores (cands ! j)) \<and>
               (\<forall>j<i. availableCpuCores (cands ! i) < availableCpuCores (cands ! j)))"
  proof
    assume a: "cands \<noteq> [] \<and> currentSchedulingAlgorithm s = BEST_FIT"
    then have f: "findSuitableNode s d = Some (n_id (hd (sort_key availableCpuCores cands)))"
      by (simp add: findSuitableNode_def hs)
    from a hd_sort_key_first_min [of cands availableCpuCores] f
    show "\<exists>i<length cands. findSuitableNode s d = Some (n_id (cands ! i)) \<and>
               (\<forall>j<length cands. availableCpuCores (cands ! i) \<le> availableCpuCores (cands ! j)) \<and>
               (\<forall>j<i. availableCpuCores (cands ! i) < availableCpuCores (cands ! j))"
      by auto
  qed
  have worst: "cands \<noteq> [] \<and> currentSchedulingAlgorithm s = WORST_FIT \<longrightarrow>
            (\<exists>i<length cands. findSuitableNode s d = Some (n_id (cands ! i)) \<and>
               (\<forall>j<length cands. availableCpuCores (cands ! j) \<le> availableCpuCores (cands ! i)) \<and>
               (\<forall>j<i. availableCpuCores (cands ! j) < availableCpuCores (cands ! i)))"
  proof
    assume a: "cands \<noteq> [] \<and> currentSchedulingAlgorithm s = WORST_FIT"
    then have f: "findSuitableNode s d =
                    Some (n_id (hd (sort_key (\<lambda>n. - availableCpuCores n) cands)))"
      by (simp add: findSuitableNode_def hs)
    from a hd_sort_key_first_min [of cands "\<lambda>n. - availableCpuCores n"] f
    show "\<exists>i<length cands. findSuitableNode s d = Some (n_id (cands ! i)) \<and>
               (\<forall>j<length cands. availableCpuCores (cands ! j) \<le> availableCpuCores (cands ! i)) \<and>
               (\<forall>j<i. availableCpuCores (cands ! j) < availableCpuCores (cands ! i))"
      by auto
  qed
  from none first best worst show ?thesis by blast
qed

lemma exCands_eq:
  "exCands = filter (\<lambda>n. n_status n = Healthy \<and> 2 \<le> availableCpuCores n)
                     (map snd (nodes (exFleet alg)))"
  by (simp add: exCands_def exFleet_def fleetNode_def)

theorem findSuitableNode_selection_witness:
  "findSuitableNode (exFleet FIRST_FIT) 2 = Some ''a'' \<and>
   findSuitableNode (exFleet BEST_FIT) 2 = Some ''b'' \<and>
   findSuitableNode (exFleet WORST_FIT) 2 = Some ''a'' \<and>
   findSuitableNode (exFleet BEST_FIT) 9 = None"
proof -
  have l: "length exCands = 4" "exCands \<noteq> []" by (simp_all add: exCands_def)
  have n: "exCands ! 0 = fleetNode ''a'' 5 Healthy" "exCands ! 1 = fleetNode ''b'' 3 Healthy"
    "exCands ! 2 = fleetNode ''d'' 3 Healthy" "exCands ! 3 = fleetNode ''f'' 5 Healthy"
    by (simp_all add: exCands_def)
  have four: "\<And>i. i < 4 \<longleftrightarrow> i = 0 \<or> i = 1 \<or> i = 2 \<or> i = (3::nat)"
    and three: "\<And>i. i < 3 \<longleftrightarrow> i = 0 \<or> i = 1 \<or> i = (2::nat)"
    and two: "\<And>i. i < 2 \<longleftrightarrow> i = 0 \<or> i = (1::nat)"
    by auto
  have a: "currentSchedulingAlgorithm (exFleet alg) = alg" for alg
    by (simp add: exFleet_def)
  have none: "[] = filter (\<lambda>n. n_status n = Healthy \<and> 9 \<le> availableCpuCores n)
                     (map snd (nodes (exFleet BEST_FIT)))"
    by (simp add: exFleet_def fleetNode_def)
  have first: "findSuitableNode (exFleet FIRST_FIT) 2 = Some ''a''"
    using findSuitableNode_selection [OF exCands_eq [of FIRST_FIT]] l n a
    by (simp add: fleetNode_def)
  have best: "findSuitableNode (exFleet BEST_FIT) 2 = Some ''b''"
    using findSuitableNode_selection [OF exCands_eq [of BEST_FIT]] l n a
    by (auto simp add: fleetNode_def four three two)
  have worst: "findSuitableNode (exFleet WORST_FIT) 2 = Some ''a''"
    using findSuitableNode_selection [OF exCands_eq [of WORST_FIT]] l n a
    by (auto simp add: fleetNode_def four three two)
  have absent: "findSuitableNode (exFleet BEST_FIT) 9 = None"
    using findSuitableNode_selection [OF none] by simp
  from first best worst absent show ?thesis by simp
qed

section \<open>Creating a pod\<close>



section \<open>Updating a pod\<close>

text \<open>
  Claim C7 (workload update, scenario E). For a pod that exists on a node that
  exists, \<^verbatim>\<open>updatePod\<close> with a new requirement \<open>c\<close> computes the additional CPU
  \<open>c - cpuRequirement\<close>. If the node's available cores are fewer, it fails and the
  cluster is unchanged (requirement and node capacity as before). Otherwise it
  succeeds, the node's available cores go down by the additional CPU, the pod's
  requirement becomes \<open>c\<close>, and nothing else changes. The operation takes no
  Docker parameter: it never calls \<^verbatim>\<open>DockerManager\<close>.
\<close>

theorem updatePod_semantics:
  assumes "map_of (pods s) podId = Some p"
    and "map_of (nodes s) (nodeId p) = Some n"
  shows "(availableCpuCores n < c - cpuRequirement p \<longrightarrow>
            updatePod s podId (Some c) = (Failure NotEnoughResources, s)) \<and>
         (\<not> availableCpuCores n < c - cpuRequirement p \<longrightarrow>
            fst (updatePod s podId (Some c)) = Success \<and>
            map_of (nodes (snd (updatePod s podId (Some c)))) (nodeId p) =
              Some (n\<lparr>availableCpuCores := availableCpuCores n - (c - cpuRequirement p)\<rparr>) \<and>
            map_of (pods (snd (updatePod s podId (Some c)))) podId =
              Some (p\<lparr>cpuRequirement := c\<rparr>) \<and>
            (\<forall>k. k \<noteq> nodeId p \<longrightarrow>
               map_of (nodes (snd (updatePod s podId (Some c)))) k = map_of (nodes s) k) \<and>
            (\<forall>k. k \<noteq> podId \<longrightarrow>
               map_of (pods (snd (updatePod s podId (Some c)))) k = map_of (pods s) k))"
  using assms by (simp add: updatePod_def Let_def map_of_mutateNode map_of_mutatePod)

theorem updatePod_semantics_witness:
  "updatePod exCluster ''p1'' (Some 5) = (Failure NotEnoughResources, exCluster) \<and>
   fst (updatePod exCluster ''p1'' (Some 3)) = Success \<and>
   map_of (nodes (snd (updatePod exCluster ''p1'' (Some 3)))) ''n1'' =
     Some (exNode\<lparr>availableCpuCores := 1\<rparr>) \<and>
   map_of (pods (snd (updatePod exCluster ''p1'' (Some 3)))) ''p1'' =
     Some (exPod\<lparr>cpuRequirement := 3\<rparr>)"
  using updatePod_semantics [of exCluster "''p1''" exPod exNode 5]
    updatePod_semantics [of exCluster "''p1''" exPod exNode 3]
  by (simp add: exCluster_def exNode_def exPod_def)

section \<open>Removing a pod\<close>

text \<open>
  Claim C9 (removal tolerates a Docker failure). For a pod that exists,
  \<^verbatim>\<open>removePod\<close> answers success and gives the same cluster whatever Docker does
  (\<open>drv\<close> and \<open>drv'\<close> are any two behaviours of Docker): the pod record is deleted,
  no other record changes, and the node the pod names, when it exists, gets the
  pod's requirement back and loses the pod's id from its list.
\<close>

theorem removePod_tolerates_driver_failure:
  assumes "map_of (pods s) podId = Some p"
  shows "fst (removePod drv s podId) = Success \<and>
         removePod drv s podId = removePod drv' s podId \<and>
         map_of (pods (snd (removePod drv s podId))) podId = None \<and>
         (\<forall>k. k \<noteq> podId \<longrightarrow>
            map_of (pods (snd (removePod drv s podId))) k = map_of (pods s) k) \<and>
         (\<forall>n. map_of (nodes s) (nodeId p) = Some n \<longrightarrow>
            map_of (nodes (snd (removePod drv s podId))) (nodeId p) =
              Some (n\<lparr>availableCpuCores := availableCpuCores n + cpuRequirement p,
                       n_pods := filter (\<lambda>i. i \<noteq> podId) (n_pods n)\<rparr>)) \<and>
         (\<forall>k. k \<noteq> nodeId p \<longrightarrow>
            map_of (nodes (snd (removePod drv s podId))) k = map_of (nodes s) k)"
  using assms
  by (simp add: removePod_def Let_def map_of_mutateNode AList.delete_conv')

theorem removePod_tolerates_driver_failure_witness:
  "fst (removePod failingDocker exCluster ''p1'') = Success \<and>
   removePod failingDocker exCluster ''p1'' = removePod workingDocker exCluster ''p1'' \<and>
   map_of (pods (snd (removePod failingDocker exCluster ''p1''))) ''p1'' = None \<and>
   map_of (nodes (snd (removePod failingDocker exCluster ''p1''))) ''n1'' =
     Some (exNode\<lparr>availableCpuCores := 4, n_pods := []\<rparr>)"
proof -
  have p: "map_of (pods exCluster) ''p1'' = Some exPod"
    by (simp add: exCluster_def)
  have n: "map_of (nodes exCluster) (nodeId exPod) = Some exNode"
    by (simp add: exCluster_def exPod_def)
  have e: "nodeId exPod = ''n1''" "cpuRequirement exPod = 2"
    "exNode\<lparr>availableCpuCores := availableCpuCores exNode + 2,
             n_pods := filter (\<lambda>i. i \<noteq> ''p1'') (n_pods exNode)\<rparr> =
     exNode\<lparr>availableCpuCores := 4, n_pods := []\<rparr>"
    by (simp_all add: exPod_def exNode_def)
  from removePod_tolerates_driver_failure [OF p, of failingDocker workingDocker] n e
  show ?thesis by metis
qed

section \<open>Rescheduling a pod\<close>

lemma scenarioC_eq:
  "scenarioC =
     \<lparr>nodes = [(''n1'', \<lparr>n_id = ''n1'', n_containerId = ''c-n1'', cpuCores = 4,
                          availableCpuCores = 0, n_pods = [''p1''], lastHeartbeat = 0,
                          n_status = Healthy\<rparr>)],
      pods = [(''p1'', \<lparr>p_id = ''p1'', cpuRequirement = 4, nodeId = ''n1'',
                         p_containerId = ''c-p1'', p_status = Running, createdAt = 1\<rparr>)],
      currentSchedulingAlgorithm = FIRST_FIT\<rparr>"
  by (simp add: scenarioC_def emptyCluster_def addNode_def schedulePod_def workingDocker_def
        findSuitableNode_def healthyNodes_def falsy_def mutateNode_def launchPodContainer_def
        Let_def)

lemma scenarioC_check:
  "10000 < now \<Longrightarrow> checkNodeHealth drv scenarioC now = scenarioC_failed"
  by (simp add: scenarioC_eq scenarioC_failed_def checkNodeHealth_def HEARTBEAT_TIMEOUT_def
        handleNodeFailure_def mutateNode_def mutatePod_def reschedulePod_def
        findSuitableNode_def healthyNodes_def falsy_def Let_def)

lemma scenarioC_stale_eq:
  "scenarioC_stale =
     \<lparr>nodes = [(''n1'', \<lparr>n_id = ''n1'', n_containerId = ''c-n1'', cpuCores = 4,
                          availableCpuCores = 0, n_pods = [''p1''], lastHeartbeat = 0,
                          n_status = Unhealthy\<rparr>)],
      pods = [(''p1'', \<lparr>p_id = ''p1'', cpuRequirement = 4, nodeId = ''n1'',
                         p_containerId = ''c-p1'', p_status = Running, createdAt = 1\<rparr>)],
      currentSchedulingAlgorithm = FIRST_FIT\<rparr>"
  by (simp add: scenarioC_stale_def scenarioC_eq mutateNode_def)

text \<open>
  Claim C4 (rescheduling with no candidate, scenario C). For a pod that exists,
  \<^verbatim>\<open>reschedulePod\<close> first takes the pod off the node it names; when the search that
  follows finds no node, the operation fails, the pod's status is \<open>Pending\<close> and
  nothing else in its record changes, the node it names (when it exists) has lost
  the pod's id and got the pod's requirement back, and no other node or pod changes.
  In particular: one node of 4 cores with one running pod requiring 4; once the
  heartbeat is more than 10000 ms old the health check leaves the node unhealthy
  with an empty pod list and 4 available cores, and the pod pending.
\<close>

theorem reschedulePod_no_candidate:
  assumes "map_of (pods s) podId = Some p"
    and "findSuitableNode
           (mutateNode (nodeId p)
              (\<lambda>n. n\<lparr>n_pods := filter (\<lambda>i. i \<noteq> podId) (n_pods n),
                     availableCpuCores := availableCpuCores n + cpuRequirement p\<rparr>) s)
           (cpuRequirement p) = None"
  shows "fst (reschedulePod drv s podId) = Failure NoSuitableNodeForRescheduling \<and>
         map_of (pods (snd (reschedulePod drv s podId))) podId = Some (p\<lparr>p_status := Pending\<rparr>) \<and>
         (\<forall>k. k \<noteq> podId \<longrightarrow>
            map_of (pods (snd (reschedulePod drv s podId))) k = map_of (pods s) k) \<and>
         (\<forall>n. map_of (nodes s) (nodeId p) = Some n \<longrightarrow>
            map_of (nodes (snd (reschedulePod drv s podId))) (nodeId p) =
              Some (n\<lparr>n_pods := filter (\<lambda>i. i \<noteq> podId) (n_pods n),
                       availableCpuCores := availableCpuCores n + cpuRequirement p\<rparr>)) \<and>
         (\<forall>k. k \<noteq> nodeId p \<longrightarrow>
            map_of (nodes (snd (reschedulePod drv s podId))) k = map_of (nodes s) k) \<and>
         (10000 < now \<longrightarrow> checkNodeHealth drv scenarioC now = scenarioC_failed)"
  using assms(2)
  by (simp add: reschedulePod_unfold [OF assms(1)] Let_def detach_def [abs_def] falsy_def
        map_of_mutateNode map_of_mutatePod assms(1) scenarioC_check)

theorem reschedulePod_no_candidate_witness:
  "fst (reschedulePod failingDocker scenarioC_stale ''p1'') =
     Failure NoSuitableNodeForRescheduling \<and>
   map_of (pods (snd (reschedulePod failingDocker scenarioC_stale ''p1''))) ''p1'' =
     Some \<lparr>p_id = ''p1'', cpuRequirement = 4, nodeId = ''n1'', p_containerId = ''c-p1'',
           p_status = Pending, createdAt = 1\<rparr> \<and>
   map_of (nodes (snd (reschedulePod failingDocker scenarioC_stale ''p1''))) ''n1'' =
     Some \<lparr>n_id = ''n1'', n_containerId = ''c-n1'', cpuCores = 4, availableCpuCores = 4,
           n_pods = [], lastHeartbeat = 0, n_status = Unhealthy\<rparr> \<and>
   checkNodeHealth failingDocker scenarioC 10001 = scenarioC_failed"
  using reschedulePod_no_candidate
          [of scenarioC_stale "''p1''"
              "\<lparr>p_id = ''p1'', cpuRequirement = 4, nodeId = ''n1'', p_containerId = ''c-p1'',
                p_status = Running, createdAt = 1\<rparr>" failingDocker 10001]
  by (simp add: scenarioC_stale_eq mutateNode_def findSuitableNode_def healthyNodes_def)

text \<open>
  Claim C5 (rescheduling reverted when the new launch fails). For a pod that
  exists, when the search after the detachment finds the node \<open>newId\<close> and the
  launch of the new container fails, the operation fails and: the new node, when it
  is not the node the pod named, has its available cores back and its pod list
  without the pod's id (it is the node it was, given that it did not list the pod
  before); if the node the pod named exists, its available cores are what they were,
  it lists the pod again (at the end of its list), and the pod's \<open>nodeId\<close> is that
  node's id; if that node does not exist, the pod's status is \<open>PodError\<close> (and its
  \<open>nodeId\<close> stays the new node's). No other node or pod changes.
\<close>

theorem reschedulePod_revert:
  assumes "map_of (pods s) podId = Some p"
    and "findSuitableNode
           (mutateNode (nodeId p)
              (\<lambda>n. n\<lparr>n_pods := filter (\<lambda>i. i \<noteq> podId) (n_pods n),
                     availableCpuCores := availableCpuCores n + cpuRequirement p\<rparr>) s)
           (cpuRequirement p) = Some newId"
    and "newId \<noteq> []"
    and "map_of (nodes s) newId = Some m"
    and "dockerRun drv podId newId = None"
  shows "fst (reschedulePod drv s podId) = Failure RescheduleFailed \<and>
         (newId \<noteq> nodeId p \<longrightarrow>
            map_of (nodes (snd (reschedulePod drv s podId))) newId =
              Some (m\<lparr>n_pods := filter (\<lambda>i. i \<noteq> podId) (n_pods m)\<rparr>)) \<and>
         (newId \<noteq> nodeId p \<and> podId \<notin> set (n_pods m) \<longrightarrow>
            map_of (nodes (snd (reschedulePod drv s podId))) newId = Some m) \<and>
         (\<forall>c. map_of (nodes s) (nodeId p) = Some c \<longrightarrow>
            map_of (nodes (snd (reschedulePod drv s podId))) (nodeId p) =
              Some (c\<lparr>n_pods := filter (\<lambda>i. i \<noteq> podId) (n_pods c) @ [podId]\<rparr>) \<and>
            map_of (pods (snd (reschedulePod drv s podId))) podId =
              Some (p\<lparr>nodeId := n_id c\<rparr>)) \<and>
         (map_of (nodes s) (nodeId p) = None \<longrightarrow>
            map_of (pods (snd (reschedulePod drv s podId))) podId =
              Some (p\<lparr>nodeId := newId, p_status := PodError\<rparr>)) \<and>
         (\<forall>k. k \<noteq> newId \<and> k \<noteq> nodeId p \<longrightarrow>
            map_of (nodes (snd (reschedulePod drv s podId))) k = map_of (nodes s) k) \<and>
         (\<forall>k. k \<noteq> podId \<longrightarrow>
            map_of (pods (snd (reschedulePod drv s podId))) k = map_of (pods s) k)"
proof -
  have r: "findSuitableNode (mutateNode (nodeId p) (detach podId (cpuRequirement p)) s)
             (cpuRequirement p) = Some newId"
    using assms(2) by (simp add: detach_def [abs_def])
  have m1: "map_of (nodes (mutateNode (nodeId p) (detach podId (cpuRequirement p)) s)) newId
              \<noteq> None"
    using assms(4) by (auto simp add: map_of_mutateNode)
  show ?thesis
  proof (cases "map_of (nodes s) (nodeId p)")
    case None
    then show ?thesis
      using r m1 assms(1,3,4,5)
      by (auto simp add: reschedulePod_unfold [OF assms(1)] Let_def falsy_def launch_fails
            map_of_mutateNode map_of_mutatePod detach_def attach_def filter_neq_id)
  next
    case (Some c)
    then show ?thesis
      using r m1 assms(1,3,4,5)
      by (auto simp add: reschedulePod_unfold [OF assms(1)] Let_def falsy_def launch_fails
            map_of_mutateNode map_of_mutatePod detach_def attach_def filter_neq_id)
  qed
qed

theorem reschedulePod_revert_witness:
  "fst (reschedulePod failingDocker exTwo ''p1'') = Failure RescheduleFailed \<and>
   map_of (nodes (snd (reschedulePod failingDocker exTwo ''p1''))) ''n2'' = Some exSpare \<and>
   map_of (nodes (snd (reschedulePod failingDocker exTwo ''p1''))) ''n1'' =
     Some (exNode\<lparr>n_status := Unhealthy\<rparr>) \<and>
   map_of (pods (snd (reschedulePod failingDocker exTwo ''p1''))) ''p1'' = Some exPod \<and>
   fst (reschedulePod failingDocker exOrphan ''p1'') = Failure RescheduleFailed \<and>
   map_of (nodes (snd (reschedulePod failingDocker exOrphan ''p1''))) ''n2'' = Some exSpare \<and>
   map_of (pods (snd (reschedulePod failingDocker exOrphan ''p1''))) ''p1'' =
     Some (exPod\<lparr>nodeId := ''n2'', p_status := PodError\<rparr>)"
  using reschedulePod_revert
          [of exTwo "''p1''" exPod "''n2''" exSpare failingDocker]
        reschedulePod_revert
          [of exOrphan "''p1''" exPod "''n2''" exSpare failingDocker]
  by (simp add: exTwo_def exOrphan_def exNode_def exPod_def exSpare_def failingDocker_def
        mutateNode_def findSuitableNode_def healthyNodes_def)

section \<open>Nodes\<close>

text \<open>
  Claim C8 (a busy node is not removed, scenario D). For a node that exists,
  \<^verbatim>\<open>removeNode\<close> fails and leaves the whole cluster as it is when the node's pod list
  is not empty; when the list is empty it succeeds and deletes the node, leaving
  the pods alone.
\<close>

theorem removeNode_busy_refused:
  assumes "map_of (nodes s) nid = Some n"
  shows "(n_pods n \<noteq> [] \<longrightarrow> removeNode s nid = (Failure (NodeHasPods (length (n_pods n))), s)) \<and>
         (n_pods n = [] \<longrightarrow>
            removeNode s nid = (Success, s\<lparr>nodes := AList.delete nid (nodes s)\<rparr>) \<and>
            map_of (nodes (snd (removeNode s nid))) nid = None \<and>
            pods (snd (removeNode s nid)) = pods s)"
  using assms by (simp add: removeNode_def AList.delete_conv')

theorem removeNode_busy_refused_witness:
  "removeNode exCluster ''n1'' = (Failure (NodeHasPods 1), exCluster) \<and>
   removeNode (exCluster\<lparr>nodes := [(''n1'', exNode\<lparr>n_pods := []\<rparr>)]\<rparr>) ''n1'' =
     (Success, exCluster\<lparr>nodes := []\<rparr>)"
  using removeNode_busy_refused [of exCluster "''n1''" exNode]
    removeNode_busy_refused
      [of "exCluster\<lparr>nodes := [(''n1'', exNode\<lparr>n_pods := []\<rparr>)]\<rparr>" "''n1''"
          "exNode\<lparr>n_pods := []\<rparr>"]
  by (simp add: exCluster_def exNode_def)

text \<open>
  Claim C10 (guard of the node capacity update). For a node that exists,
  \<^verbatim>\<open>updateNode\<close> with \<open>cpuCores = c\<close> fails and leaves the cluster unchanged when
  \<open>c\<close> is below the CPU hosted on the node. Otherwise it succeeds, sets the cores to
  \<open>c\<close> and the available cores to \<open>c\<close> minus the cores in use before
  (\<open>cpuCores - availableCpuCores\<close>), touches no other node and no pod, and a node
  whose accounting was right has it right afterwards.
\<close>

theorem updateNode_capacity_guard:
  assumes "map_of (nodes s) nid = Some n"
  shows "(c < hostedCpu s n \<longrightarrow>
            updateNode s nid (Some c) = (Failure (CannotReduceCpu (hostedCpu s n)), s)) \<and>
         (\<not> c < hostedCpu s n \<longrightarrow>
            fst (updateNode s nid (Some c)) = Success \<and>
            map_of (nodes (snd (updateNode s nid (Some c)))) nid =
              Some (n\<lparr>availableCpuCores := c - (cpuCores n - availableCpuCores n),
                       cpuCores := c\<rparr>) \<and>
            (\<forall>k. k \<noteq> nid \<longrightarrow>
               map_of (nodes (snd (updateNode s nid (Some c)))) k = map_of (nodes s) k) \<and>
            pods (snd (updateNode s nid (Some c))) = pods s \<and>
            (capacityOk s n \<longrightarrow>
               capacityOk (snd (updateNode s nid (Some c)))
                 (n\<lparr>availableCpuCores := c - (cpuCores n - availableCpuCores n),
                     cpuCores := c\<rparr>)))"
  using assms
  by (simp add: updateNode_def totalPodCpu_hostedCpu map_of_mutateNode capacityOk_def
        hostedCpu_def)

theorem updateNode_capacity_guard_witness:
  "updateNode exCluster ''n1'' (Some 1) = (Failure (CannotReduceCpu 2), exCluster) \<and>
   fst (updateNode exCluster ''n1'' (Some 6)) = Success \<and>
   map_of (nodes (snd (updateNode exCluster ''n1'' (Some 6)))) ''n1'' =
     Some (exNode\<lparr>availableCpuCores := 4, cpuCores := 6\<rparr>) \<and>
   capacityOk exCluster exNode \<and>
   capacityOk (snd (updateNode exCluster ''n1'' (Some 6)))
     (exNode\<lparr>availableCpuCores := 4, cpuCores := 6\<rparr>)"
proof -
  have h: "hostedCpu exCluster exNode = 2"
    by (simp add: hostedCpu_def podCpu_def exCluster_def exNode_def exPod_def)
  have ok: "capacityOk exCluster exNode"
    by (simp add: capacityOk_def h) (simp add: exNode_def)
  show ?thesis
    using updateNode_capacity_guard [of exCluster "''n1''" exNode 1]
      updateNode_capacity_guard [of exCluster "''n1''" exNode 6] h ok
    by (simp add: exCluster_def exNode_def)
qed

section \<open>The relation between pods and nodes in reachable states\<close>

subsection \<open>Views of the relation\<close>

lemma podsAt_mutatePod [simp]: "podsAt (mutatePod i g s) = podsAt s"
  by (rule ext) (simp add: podsAt_def)

lemma podsAt_pods_update [simp]: "podsAt (s\<lparr>pods := ps\<rparr>) = podsAt s"
  by (rule ext) (simp add: podsAt_def)








subsection \<open>Nodes stay under their own id\<close>




lemma nodeKeysOk_mutatePod [simp]: "nodeKeysOk (mutatePod i g s) = nodeKeysOk s"
  by (simp add: nodeKeysOk_def)

lemma nodeKeysOk_pods_update [simp]: "nodeKeysOk (s\<lparr>pods := ps\<rparr>) = nodeKeysOk s"
  by (simp add: nodeKeysOk_def)


subsection \<open>Each operation keeps the relation\<close>
























lemma reachable_scenarioC: "reachable scenarioC"
  unfolding scenarioC_def
  by (intro reachable.schedulePod reachable.addNode reachable.start)
     (simp add: addNode_def emptyCluster_def)

lemma reachable_scenarioC_failed: "reachable scenarioC_failed"
proof -
  have "length (staleNodes scenarioC 10001) \<le> 1"
    by (simp add: staleNodes_def scenarioC_eq)
  from reachable.checkNodeHealth [OF reachable_scenarioC this, of workingDocker]
  show ?thesis by (simp add: scenarioC_check)
qed

subsection \<open>The relation that holds, and the one that does not\<close>




section \<open>Capacity accounting in reachable states\<close>

text \<open>
  Claim C1 (capacity accounting) says that in every reachable state every node has
  \<open>availableCpuCores\<close> plus the CPU of its listed pods equal to \<open>cpuCores\<close>, with
  \<open>availableCpuCores\<close> between 0 and \<open>cpuCores\<close>. The code does not keep it:
  \<^verbatim>\<open>removePod\<close> gives the pod's CPU back to the node the pod names without looking
  whether that node still lists the pod. After scenario C (node of 4 cores, pod
  requiring 4, stale heartbeat, health check: the pod is pending, its CPU already
  given back), removing the pod gives the 4 cores back a second time: the state is
  reachable, the node has 4 cores, 8 available cores and no pod, and its accounting
  is wrong.
\<close>

theorem capacity_broken_after_removePod:
  "reachable scenarioC_removed \<and>
   scenarioC_removed =
     \<lparr>nodes = [(''n1'', overfullNode)], pods = [], currentSchedulingAlgorithm = FIRST_FIT\<rparr> \<and>
   cpuCores overfullNode = 4 \<and> availableCpuCores overfullNode = 8 \<and>
   hostedCpu scenarioC_removed overfullNode = 0 \<and>
   \<not> capacityOk scenarioC_removed overfullNode"
proof -
  have r: "reachable scenarioC_removed"
    unfolding scenarioC_removed_def by (rule reachable.removePod [OF reachable_scenarioC_failed])
  have e: "scenarioC_removed =
     \<lparr>nodes = [(''n1'', overfullNode)], pods = [], currentSchedulingAlgorithm = FIRST_FIT\<rparr>"
    by (simp add: scenarioC_removed_def scenarioC_failed_def removePod_def mutateNode_def
          Let_def overfullNode_def)
  have h: "hostedCpu scenarioC_removed overfullNode = 0"
    by (simp add: hostedCpu_def overfullNode_def)
  have "\<not> capacityOk scenarioC_removed overfullNode"
    unfolding capacityOk_def h by (simp add: overfullNode_def)
  with r e h show ?thesis by (simp add: overfullNode_def)
qed

end
